theory Spec2Isabelle
  imports Complex_Main
begin

section \<open>Data model of the template forecaster (src/main.py)\<close>

text \<open>
  The forecaster of \<^verbatim>\<open>src/main.py\<close> is a subclass of the library class
  \<^verbatim>\<open>ForecastBot\<close>. It reads the process environment, calls one research provider,
  builds prompts and hands the text of the language model to the library's
  \<^verbatim>\<open>PredictionExtractor\<close>. Exceptions are values of a sum type, with \<open>Inl\<close> the
  exception; the remote services are parameters of the model.
\<close>

datatype exn = Raised string

text \<open>The fields of \<^verbatim>\<open>MetaculusQuestion\<close> that \<^verbatim>\<open>run_research\<close> reads.\<close>

record question =
  question_text :: string
  page_url :: string

text \<open>
  \<^verbatim>\<open>os.getenv(name)\<close> is \<^verbatim>\<open>None\<close> for a variable that is not set and its value
  otherwise. The \<^verbatim>\<open>if\<close> of the source tests the truth value of that result: \<^verbatim>\<open>None\<close>
  and the empty string are false.
\<close>

type_synonym environ = "string \<Rightarrow> string option"

definition getenv_true :: "environ \<Rightarrow> string \<Rightarrow> bool" where
  "getenv_true env name = (case env name of None \<Rightarrow> False | Some v \<Rightarrow> v \<noteq> [])"

datatype provider = AskNews | ExaSmartSearcher | Perplexity | PerplexityOpenRouter

text \<open>
  What \<^verbatim>\<open>run_research\<close> does besides returning: it enters and leaves the semaphore
  \<^verbatim>\<open>_concurrency_limiter\<close>, queries a provider (with the text handed to it) and logs.
\<close>

datatype event =
    SemAcquire
  | SemRelease
  | Query provider string
  | LogWarning string
  | LogInfo string

text \<open>
  The collaborators: \<^verbatim>\<open>AskNewsSearcher().get_formatted_news_async\<close>, the \<^verbatim>\<open>invoke\<close> of
  the \<^verbatim>\<open>SmartSearcher\<close> built by \<^verbatim>\<open>_call_exa_smart_searcher\<close>, the \<^verbatim>\<open>invoke\<close> of
  \<^verbatim>\<open>GeneralLlm(model=model_name, temperature=0.1)\<close> and the library function
  \<^verbatim>\<open>clean_indents\<close>. Each call returns text or raises.
\<close>

record collaborators =
  get_formatted_news_async :: "string \<Rightarrow> exn + string"
  smart_searcher_invoke :: "string \<Rightarrow> exn + string"
  general_llm_invoke :: "string \<Rightarrow> string \<Rightarrow> exn + string"
  clean_indents :: "string \<Rightarrow> string"

section \<open>Research dispatch\<close>

definition perplexity_prompt :: "collaborators \<Rightarrow> string \<Rightarrow> string" where
  "perplexity_prompt c qtext = clean_indents c
     (''\<newline>            You are an assistant to a superforecaster.'' @
      ''\<newline>            The superforecaster will give you a question they intend to forecast on.'' @
      ''\<newline>            To be a great assistant, you generate a concise but detailed rundown of the most relevant news, including if the question would resolve Yes or No based on current information.'' @
      ''\<newline>            You do not produce forecasts yourself.'' @
      ''\<newline>'' @
      ''\<newline>            Question:'' @
      ''\<newline>            '' @ qtext @
      ''\<newline>            '')"

definition call_perplexity :: "collaborators \<Rightarrow> string \<Rightarrow> bool \<Rightarrow> exn + string" where
  "call_perplexity c qtext use_open_router =
     (let prompt = perplexity_prompt c qtext;
          model_name = (if use_open_router then ''openrouter/perplexity/sonar-reasoning''
                        else ''perplexity/sonar-pro'')
      in general_llm_invoke c model_name prompt)"

definition exa_prompt :: "string \<Rightarrow> string" where
  "exa_prompt qtext =
     ''You are an assistant to a superforecaster. The superforecaster will give'' @
     ''you a question they intend to forecast on. To be a great assistant, you generate'' @
     ''a concise but detailed rundown of the most relevant news, including if the question'' @
     ''would resolve Yes or No based on current information. You do not produce forecasts yourself.'' @
     ''\<newline>\<newline>The question is: '' @ qtext"

definition call_exa_smart_searcher :: "collaborators \<Rightarrow> string \<Rightarrow> exn + string" where
  "call_exa_smart_searcher c qtext = smart_searcher_invoke c (exa_prompt qtext)"

text \<open>
  \<^verbatim>\<open>run_research\<close>: the \<^verbatim>\<open>if\<close>/\<^verbatim>\<open>elif\<close> chain in the order of the source. An exception
  of the awaited call leaves the \<^verbatim>\<open>async with\<close> block (the semaphore is released) before
  the \<^verbatim>\<open>logger.info\<close> line; otherwise the research text is logged and returned.
\<close>

definition run_research :: "collaborators \<Rightarrow> environ \<Rightarrow> question \<Rightarrow> event list \<times> (exn + string)" where
  "run_research c env q =
     (let (evs, r) =
        (if getenv_true env ''ASKNEWS_CLIENT_ID'' \<and> getenv_true env ''ASKNEWS_SECRET'' then
           ([Query AskNews (question_text q)], get_formatted_news_async c (question_text q))
         else if getenv_true env ''EXA_API_KEY'' then
           ([Query ExaSmartSearcher (question_text q)], call_exa_smart_searcher c (question_text q))
         else if getenv_true env ''PERPLEXITY_API_KEY'' then
           ([Query Perplexity (question_text q)], call_perplexity c (question_text q) False)
         else if getenv_true env ''OPENROUTER_API_KEY'' then
           ([Query PerplexityOpenRouter (question_text q)], call_perplexity c (question_text q) True)
         else
           ([LogWarning (''No research provider found when processing question URL '' @ page_url q @
                         ''. Will pass back empty string.'')],
            Inr ''''))
      in case r of
           Inl e \<Rightarrow> ([SemAcquire] @ evs @ [SemRelease], Inl e)
         | Inr research \<Rightarrow>
             ([SemAcquire] @ evs @
              [LogInfo (''Found Research for URL '' @ page_url q @ '':\<newline>'' @ research), SemRelease],
              Inr research))"

text \<open>The providers a run has queried, in the order of the calls.\<close>

fun queried :: "event list \<Rightarrow> provider list" where
  "queried [] = []"
| "queried (Query p a # evs) = p # queried evs"
| "queried (e # evs) = queried evs"

text \<open>
  The precedence of the providers and the environment variables each one needs, as a
  table, to compare the chain of \<^verbatim>\<open>run_research\<close> with.
\<close>

definition precedence :: "provider list" where
  "precedence = [AskNews, ExaSmartSearcher, Perplexity, PerplexityOpenRouter]"

fun credentials :: "provider \<Rightarrow> string list" where
  "credentials AskNews = [''ASKNEWS_CLIENT_ID'', ''ASKNEWS_SECRET'']"
| "credentials ExaSmartSearcher = [''EXA_API_KEY'']"
| "credentials Perplexity = [''PERPLEXITY_API_KEY'']"
| "credentials PerplexityOpenRouter = [''OPENROUTER_API_KEY'']"

definition configured :: "environ \<Rightarrow> provider \<Rightarrow> bool" where
  "configured env p = list_all (getenv_true env) (credentials p)"

text \<open>The call that \<^verbatim>\<open>run_research\<close> makes to a provider, and what it returns.\<close>

fun provider_call :: "collaborators \<Rightarrow> string \<Rightarrow> provider \<Rightarrow> exn + string" where
  "provider_call c qtext AskNews = get_formatted_news_async c qtext"
| "provider_call c qtext ExaSmartSearcher = call_exa_smart_searcher c qtext"
| "provider_call c qtext Perplexity = call_perplexity c qtext False"
| "provider_call c qtext PerplexityOpenRouter = call_perplexity c qtext True"

section \<open>Bound messages of the numeric prompt\<close>

text \<open>
  The fields of \<^verbatim>\<open>NumericQuestion\<close> read by \<^verbatim>\<open>_create_upper_and_lower_bound_messages\<close>
  and by the numeric forecast. The bounds are Python floats, modelled as rationals and
  formatted into the message by the f-string; the formatting is the parameter \<open>fmt\<close>.
\<close>

record numeric_question =
  open_upper_bound :: bool
  open_lower_bound :: bool
  upper_bound :: rat
  lower_bound :: rat
  unit_of_measure :: "string option"

definition create_upper_and_lower_bound_messages ::
    "(rat \<Rightarrow> string) \<Rightarrow> numeric_question \<Rightarrow> string \<times> string" where
  "create_upper_and_lower_bound_messages fmt q =
     (let upper_bound_message =
            (if open_upper_bound q then ''''
             else ''The outcome can not be higher than '' @ fmt (upper_bound q) @ ''.'');
          lower_bound_message =
            (if open_lower_bound q then ''''
             else ''The outcome can not be lower than '' @ fmt (lower_bound q) @ ''.'')
      in (upper_bound_message, lower_bound_message))"

text \<open>
  \<^verbatim>\<open>_run_forecast_on_numeric\<close> unpacks the pair in the order it is returned and puts the
  lower message on one line of the prompt and the upper message on the next.
\<close>

definition numeric_prompt_bound_lines :: "(rat \<Rightarrow> string) \<Rightarrow> numeric_question \<Rightarrow> string list" where
  "numeric_prompt_bound_lines fmt q =
     (let (upper_bound_message, lower_bound_message) = create_upper_and_lower_bound_messages fmt q
      in [lower_bound_message, upper_bound_message])"

text \<open>A concrete environment, question and set of services, for the examples.\<close>

definition demo_services :: collaborators where
  "demo_services =
     \<lparr>get_formatted_news_async = (\<lambda>t. Inr ''news''),
      smart_searcher_invoke = (\<lambda>t. Inl (Raised ''exa is down'')),
      general_llm_invoke = (\<lambda>m t. Inr m),
      clean_indents = (\<lambda>t. t)\<rparr>"

definition demo_question :: question where
  "demo_question = \<lparr>question_text = ''Will it rain?'', page_url = ''https://example.org/q/1''\<rparr>"

definition env_of :: "(string \<times> string) list \<Rightarrow> environ" where
  "env_of kvs = map_of kvs"

section \<open>Prediction extraction\<close>

text \<open>
  The three forecast functions of \<^verbatim>\<open>src/main.py\<close> hand the text of the language model
  to \<^verbatim>\<open>PredictionExtractor\<close> of the library \<^verbatim>\<open>forecasting_tools\<close>, whose code is not
  in the repository. The extractors below follow sections 4.1 to 4.3 of the
  specification. Python floats are modelled as exact rationals: rounding is not part of
  the model.
\<close>

datatype forecast_error =
    InvocationError exn
  | ExtractionError
  | ZeroDivisionError

record 'a reasoned_prediction =
  prediction_value :: 'a
  reasoning :: string

subsection \<open>Characters and numbers\<close>

definition is_digit :: "char \<Rightarrow> bool" where
  "is_digit c = (c \<in> set ''0123456789'')"

definition digit_value :: "char \<Rightarrow> nat" where
  "digit_value c = of_char c - 48"

definition nat_of_digits :: "string \<Rightarrow> nat" where
  "nat_of_digits ds = foldl (\<lambda>n c. 10 * n + digit_value c) 0 ds"

definition is_space :: "char \<Rightarrow> bool" where
  "is_space c = (c \<in> set [CHR '' '', CHR 0x09, CHR ''\<newline>'', CHR 0x0D])"

definition strip :: "string \<Rightarrow> string" where
  "strip s = rev (dropWhile is_space (rev (dropWhile is_space s)))"

definition lower :: "char \<Rightarrow> char" where
  "lower c = (let n = (of_char c :: nat) in if 65 \<le> n \<and> n \<le> 90 then char_of (n + 32) else c)"

fun split_lines :: "string \<Rightarrow> string list" where
  "split_lines [] = [[]]"
| "split_lines (c # cs) =
     (if c = CHR ''\<newline>'' then [] # split_lines cs
      else (case split_lines cs of [] \<Rightarrow> [[c]] | l # ls \<Rightarrow> (c # l) # ls))"

subsection \<open>Percentage extractor (specification 4.1)\<close>

text \<open>
  Modelled from the spec: \<^verbatim>\<open>PredictionExtractor.extract_last_percentage_value\<close> is
  missing from the sources. The scan collects, in document order, every number followed
  by a percent sign, a number being a maximal run of decimal digits (the prompt asks for
  "Probability: ZZ%"); \<open>ds\<close> is the run of digits read so far.
\<close>

fun scan_percentages :: "string \<Rightarrow> string \<Rightarrow> nat list" where
  "scan_percentages ds [] = []"
| "scan_percentages ds (c # cs) =
     (if is_digit c then scan_percentages (ds @ [c]) cs
      else if c = CHR ''%'' \<and> ds \<noteq> [] then nat_of_digits ds # scan_percentages [] cs
      else scan_percentages [] cs)"

definition percentage_matches :: "string \<Rightarrow> nat list" where
  "percentage_matches text = scan_percentages [] text"

text \<open>
  Modelled from the spec: \<^verbatim>\<open>PredictionExtractor.extract_last_percentage_value\<close> is
  missing from the sources. Take the last match, divide by 100, clamp to the range
  \<open>[min_prediction, max_prediction]\<close> of the caller; no match is an \<open>ExtractionError\<close>.
\<close>

definition extract_last_percentage_value :: "string \<Rightarrow> rat \<Rightarrow> rat \<Rightarrow> forecast_error + rat" where
  "extract_last_percentage_value text max_prediction min_prediction =
     (case percentage_matches text of
        [] \<Rightarrow> Inl ExtractionError
      | m # ms \<Rightarrow>
          Inr (min max_prediction (max min_prediction (of_nat (last (m # ms)) / 100))))"

text \<open>
  \<^verbatim>\<open>_run_forecast_on_binary\<close>, lines 224 to 233: the prompt built in lines 141 to 223 is
  the argument \<open>prompt\<close>, \<open>llm\<close> is \<^verbatim>\<open>self.get_llm("default", "llm").invoke\<close>. The
  extractor is called with \<^verbatim>\<open>max_prediction=1, min_prediction=0\<close>. The
  \<^verbatim>\<open>logger.info\<close> line has no effect on the result.
\<close>

definition run_forecast_on_binary ::
    "(string \<Rightarrow> exn + string) \<Rightarrow> string \<Rightarrow> forecast_error + rat reasoned_prediction" where
  "run_forecast_on_binary llm prompt =
     (case llm prompt of
        Inl e \<Rightarrow> Inl (InvocationError e)
      | Inr response \<Rightarrow>
          (case extract_last_percentage_value response 1 0 of
             Inl e \<Rightarrow> Inl e
           | Inr prediction \<Rightarrow> Inr \<lparr>prediction_value = prediction, reasoning = response\<rparr>))"

subsection \<open>Option-list extractor (specification 4.2)\<close>

text \<open>
  \<open>PredictedOptionList\<close>: the pairs of option label and probability, and the options
  for which the lenient policy logged a warning.
\<close>

record predicted_option_list =
  predicted_options :: "(string \<times> rat) list"
  unmatched_warnings :: "string list"

text \<open>
  The choices the specification leaves open: whether an option without a line is fatal
  or gets the floor probability (\<open>lenient\<close>), the floor \<open>epsilon\<close> (for example 0.001)
  and the tolerance within which a raw sum counts as 1.
\<close>

record extraction_policy =
  lenient :: bool
  epsilon :: rat
  tolerance :: rat

definition normalize_label :: "string \<Rightarrow> string" where
  "normalize_label s = map lower (strip s)"

text \<open>
  Modelled from the spec: \<^verbatim>\<open>PredictionExtractor.extract_option_list_with_percentage_afterwards\<close>
  is missing from the sources. Step 1, one line of the form "label: NN%": the label is
  the text before the last colon, trimmed and in lower case; the raw probability is the
  percentage divided by 100. A line of another form is not an entry.
\<close>

definition parse_option_line :: "string \<Rightarrow> (string \<times> rat) option" where
  "parse_option_line line =
     (if CHR '':'' \<notin> set line then None
      else
        let val = strip (rev (takeWhile (\<lambda>c. c \<noteq> CHR '':'') (rev line)));
            label = rev (tl (dropWhile (\<lambda>c. c \<noteq> CHR '':'') (rev line)))
        in if val \<noteq> [] \<and> last val = CHR ''%'' \<and> butlast val \<noteq> [] \<and> list_all is_digit (butlast val)
           then Some (normalize_label label, of_nat (nat_of_digits (butlast val)) / 100)
           else None)"

text \<open>
  Modelled from the spec: step 1 of the missing option-list extractor, the mapping from
  normalized label to raw probability, as the list of entries in document order; in the
  mapping a later line replaces an earlier line with the same label.
\<close>

definition scan_option_lines :: "string \<Rightarrow> (string \<times> rat) list" where
  "scan_option_lines text = List.map_filter parse_option_line (split_lines text)"

definition option_mapping :: "string \<Rightarrow> string \<Rightarrow> rat option" where
  "option_mapping text = map_of (rev (scan_option_lines text))"

text \<open>
  Modelled from the spec: step 2 of the missing option-list extractor, each canonical
  option with the raw probability of the entry whose label matches it, if any.
\<close>

definition match_options :: "(string \<Rightarrow> rat option) \<Rightarrow> string list \<Rightarrow> (string \<times> rat option) list" where
  "match_options mapping options = map (\<lambda>opt. (opt, mapping (normalize_label opt))) options"

text \<open>
  Modelled from the spec: step 3 of the missing option-list extractor. The matched raw
  probabilities are rescaled by their sum unless the sum is 1 within the tolerance. The
  specification does not say what a sum of 0 gives: the division is not defined, and the
  model fails there.
\<close>

definition rescale_matched ::
    "rat \<Rightarrow> (string \<times> rat option) list \<Rightarrow> forecast_error + (string \<times> rat option) list" where
  "rescale_matched tol matched =
     (let raw = List.map_filter snd matched; total = sum_list raw
      in if raw = [] \<or> \<bar>total - 1\<bar> \<le> tol then Inr matched
         else if total = 0 then Inl ZeroDivisionError
         else Inr (map (\<lambda>(opt, m). (opt, map_option (\<lambda>p. p / total) m)) matched))"

text \<open>
  Modelled from the spec: step 4 of the missing option-list extractor. An unmatched
  option gets the floor, no probability stays below the floor, and the result is divided
  by its sum; a sum of 0 (possible only without options or with a floor that is not
  positive) fails.
\<close>

definition apply_floor :: "rat \<Rightarrow> (string \<times> rat option) list \<Rightarrow> (string \<times> rat) list" where
  "apply_floor eps normalized =
     map (\<lambda>(opt, m). (opt, max eps (case m of None \<Rightarrow> eps | Some p \<Rightarrow> p))) normalized"

definition renormalize :: "(string \<times> rat) list \<Rightarrow> forecast_error + (string \<times> rat) list" where
  "renormalize floored =
     (let total = sum_list (map snd floored)
      in if total = 0 then Inl ZeroDivisionError
         else Inr (map (\<lambda>(opt, p). (opt, p / total)) floored))"

text \<open>
  Modelled from the spec: \<^verbatim>\<open>PredictionExtractor.extract_option_list_with_percentage_afterwards\<close>
  is missing from the sources. No parsable line is fatal; an option without a line is
  fatal under the strict policy and a warning under the lenient one.
\<close>

definition extract_option_list_with_percentage_afterwards ::
    "extraction_policy \<Rightarrow> string \<Rightarrow> string list \<Rightarrow> forecast_error + predicted_option_list" where
  "extract_option_list_with_percentage_afterwards pol text options =
     (if scan_option_lines text = [] then Inl ExtractionError
      else
        let matched = match_options (option_mapping text) options;
            unmatched = map fst (filter (\<lambda>(opt, m). m = None) matched)
        in if \<not> lenient pol \<and> unmatched \<noteq> [] then Inl ExtractionError
           else
             (case rescale_matched (tolerance pol) matched of
                Inl e \<Rightarrow> Inl e
              | Inr normalized \<Rightarrow>
                  (case renormalize (apply_floor (epsilon pol) normalized) of
                     Inl e \<Rightarrow> Inl e
                   | Inr final \<Rightarrow>
                       Inr \<lparr>predicted_options = final, unmatched_warnings = unmatched\<rparr>)))"

text \<open>
  \<^verbatim>\<open>_run_forecast_on_multiple_choice\<close>, lines 352 to 363: the prompt built in lines 240
  to 351 is the argument \<open>prompt\<close>, \<open>options\<close> is \<^verbatim>\<open>question.options\<close>.
\<close>

definition run_forecast_on_multiple_choice ::
    "extraction_policy \<Rightarrow> (string \<Rightarrow> exn + string) \<Rightarrow> string \<Rightarrow> string list \<Rightarrow>
     forecast_error + predicted_option_list reasoned_prediction" where
  "run_forecast_on_multiple_choice pol llm prompt options =
     (case llm prompt of
        Inl e \<Rightarrow> Inl (InvocationError e)
      | Inr response \<Rightarrow>
          (case extract_option_list_with_percentage_afterwards pol response options of
             Inl e \<Rightarrow> Inl e
           | Inr prediction \<Rightarrow> Inr \<lparr>prediction_value = prediction, reasoning = response\<rparr>))"

subsection \<open>Percentile extractor (specification 4.3)\<close>

text \<open>
  \<open>NumericDistribution\<close>: the declared percentiles, as pairs of percentile and value in
  increasing order of the percentile, with the question they belong to (its bounds and
  its unit of measure, passed through).
\<close>

record numeric_distribution =
  declared_percentiles :: "(nat \<times> rat) list"
  distribution_question :: numeric_question

text \<open>
  The choices the specification leaves open: the canonical percentiles (for example 10,
  20, ..., 90) and the least number of points (for example 2).
\<close>

record percentile_policy =
  canonical_percentiles :: "nat list"
  minimum_points :: nat

text \<open>
  Modelled from the spec: the number syntax of the missing
  \<^verbatim>\<open>PredictionExtractor.extract_numeric_distribution_from_list_of_percentile_number_and_probability\<close>.
  Thousands separators are removed, a minus sign and a decimal fraction are accepted;
  anything else, scientific notation too, is malformed.
\<close>

definition parse_number :: "string \<Rightarrow> rat option" where
  "parse_number tok =
     (let t = filter (\<lambda>c. c \<noteq> CHR '','') tok;
          negative = (t \<noteq> [] \<and> hd t = CHR ''-'');
          body = (if negative then tl t else t);
          sign = (if negative then - 1 else 1);
          whole = takeWhile is_digit body;
          rest = dropWhile is_digit body
      in if whole = [] then None
         else if rest = [] then Some (sign * of_nat (nat_of_digits whole))
         else if hd rest = CHR ''.'' \<and> tl rest \<noteq> [] \<and> list_all is_digit (tl rest)
           then Some (sign * (of_nat (nat_of_digits whole) +
                              of_nat (nat_of_digits (tl rest)) / 10 ^ length (tl rest)))
         else None)"

text \<open>
  Modelled from the spec: step 1 of the missing percentile extractor, one line of the
  form "Percentile p: value" with \<open>p\<close> a canonical percentile. A line of another form
  or with a malformed value is skipped.
\<close>

definition parse_percentile_line :: "percentile_policy \<Rightarrow> string \<Rightarrow> (nat \<times> rat) option" where
  "parse_percentile_line pol line =
     (let l = strip line
      in if take 11 l \<noteq> ''Percentile '' then None
         else
           let rest = drop 11 l;
               p = takeWhile is_digit rest;
               after = dropWhile is_digit rest
           in if p = [] \<or> after = [] \<or> hd after \<noteq> CHR '':'' then None
              else if nat_of_digits p \<notin> set (canonical_percentiles pol) then None
              else map_option (\<lambda>v. (nat_of_digits p, v)) (parse_number (strip (tl after))))"

definition scan_percentile_lines :: "percentile_policy \<Rightarrow> string \<Rightarrow> (nat \<times> rat) list" where
  "scan_percentile_lines pol text = List.map_filter (parse_percentile_line pol) (split_lines text)"

text \<open>
  Modelled from the spec: step 2 of the missing percentile extractor, the mapping from
  declared percentile to value, kept in increasing order of the percentile; a later
  line replaces the value of an earlier line for the same percentile.
\<close>

fun declare_percentile :: "nat \<Rightarrow> rat \<Rightarrow> (nat \<times> rat) list \<Rightarrow> (nat \<times> rat) list" where
  "declare_percentile p v [] = [(p, v)]"
| "declare_percentile p v ((p', v') # xs) =
     (if p < p' then (p, v) # (p', v') # xs
      else if p = p' then (p, v) # xs
      else (p', v') # declare_percentile p v xs)"

definition percentile_mapping :: "(nat \<times> rat) list \<Rightarrow> (nat \<times> rat) list" where
  "percentile_mapping entries = foldl (\<lambda>m (p, v). declare_percentile p v m) [] entries"

text \<open>
  Modelled from the spec: step 3 of the missing percentile extractor. Walking the
  percentiles in increasing order, a value less than the one before it is replaced by
  the one before it.
\<close>

fun enforce_monotonic :: "(nat \<times> rat) list \<Rightarrow> (nat \<times> rat) list" where
  "enforce_monotonic [] = []"
| "enforce_monotonic [x] = [x]"
| "enforce_monotonic ((p, v) # (p', v') # xs) =
     (p, v) # enforce_monotonic ((p', if v' < v then v else v') # xs)"

text \<open>
  Modelled from the spec: step 4 of the missing percentile extractor. A value is
  clipped to a bound of the question when that bound is closed.
\<close>

definition clip_to_bounds :: "numeric_question \<Rightarrow> rat \<Rightarrow> rat" where
  "clip_to_bounds q v =
     (let v1 = (if open_upper_bound q then v else min (upper_bound q) v)
      in if open_lower_bound q then v1 else max (lower_bound q) v1)"

text \<open>
  Modelled from the spec:
  \<^verbatim>\<open>PredictionExtractor.extract_numeric_distribution_from_list_of_percentile_number_and_probability\<close>
  is missing from the sources. Fewer points than the minimum is an \<open>ExtractionError\<close>.
\<close>

definition extract_numeric_distribution ::
    "percentile_policy \<Rightarrow> string \<Rightarrow> numeric_question \<Rightarrow> forecast_error + numeric_distribution" where
  "extract_numeric_distribution pol text q =
     (let mapping = percentile_mapping (scan_percentile_lines pol text)
      in if length mapping < minimum_points pol then Inl ExtractionError
         else Inr \<lparr>declared_percentiles =
                     map (\<lambda>(p, v). (p, clip_to_bounds q v)) (enforce_monotonic mapping),
                   distribution_question = q\<rparr>)"

text \<open>
  \<^verbatim>\<open>_run_forecast_on_numeric\<close>, lines 469 to 480: the prompt built in lines 369 to 468 is
  the argument \<open>prompt\<close>.
\<close>

definition run_forecast_on_numeric ::
    "percentile_policy \<Rightarrow> (string \<Rightarrow> exn + string) \<Rightarrow> string \<Rightarrow> numeric_question \<Rightarrow>
     forecast_error + numeric_distribution reasoned_prediction" where
  "run_forecast_on_numeric pol llm prompt q =
     (case llm prompt of
        Inl e \<Rightarrow> Inl (InvocationError e)
      | Inr response \<Rightarrow>
          (case extract_numeric_distribution pol response q of
             Inl e \<Rightarrow> Inl e
           | Inr prediction \<Rightarrow> Inr \<lparr>prediction_value = prediction, reasoning = response\<rparr>))"

text \<open>A policy for the examples: strict matching, floor 0.001, tolerance 1e-6.\<close>

definition demo_policy :: extraction_policy where
  "demo_policy = \<lparr>lenient = False, epsilon = 1 / 1000, tolerance = 1 / 1000000\<rparr>"

text \<open>For the examples: the deciles as canonical percentiles, at least 2 points, and a question with open bounds.\<close>

definition demo_percentile_policy :: percentile_policy where
  "demo_percentile_policy =
     \<lparr>canonical_percentiles = [10, 20, 30, 40, 50, 60, 70, 80, 90], minimum_points = 2\<rparr>"

definition demo_numeric_question :: numeric_question where
  "demo_numeric_question =
     \<lparr>open_upper_bound = True, open_lower_bound = True, upper_bound = 100, lower_bound = 0,
      unit_of_measure = None\<rparr>"

section \<open>Properties of the research dispatch\<close>

lemma run_research_cases:
  "run_research c env q =
     (case find (configured env) precedence of
        None \<Rightarrow>
          ([SemAcquire,
            LogWarning (''No research provider found when processing question URL '' @ page_url q @
                        ''. Will pass back empty string.''),
            LogInfo (''Found Research for URL '' @ page_url q @ '':\<newline>''), SemRelease],
           Inr '''')
      | Some p \<Rightarrow>
          (case provider_call c (question_text q) p of
             Inl e \<Rightarrow> ([SemAcquire, Query p (question_text q), SemRelease], Inl e)
           | Inr research \<Rightarrow>
               ([SemAcquire, Query p (question_text q),
                 LogInfo (''Found Research for URL '' @ page_url q @ '':\<newline>'' @ research),
                 SemRelease],
                Inr research)))"
  by (simp add: run_research_def precedence_def configured_def split: sum.splits)

lemma queried_run_research:
  "queried (fst (run_research c env q)) =
     (case find (configured env) precedence of None \<Rightarrow> [] | Some p \<Rightarrow> [p])"
  by (simp add: run_research_cases split: option.splits sum.splits)

lemma snd_run_research:
  "snd (run_research c env q) =
     (case find (configured env) precedence of
        None \<Rightarrow> Inr ''''
      | Some p \<Rightarrow> provider_call c (question_text q) p)"
  by (simp add: run_research_cases split: option.splits sum.splits)

lemma query_run_research:
  "find (configured env) precedence = Some p \<Longrightarrow>
   Query p (question_text q) \<in> set (fst (run_research c env q))"
  by (simp add: run_research_cases split: sum.splits)

text \<open>
  C2. In every environment \<^verbatim>\<open>run_research\<close> queries the first provider of the order
  AskNews, Exa smart searcher, Perplexity, Perplexity through OpenRouter whose
  environment variables all have a value, and no other: it calls that provider with the
  text of the question and its result is what that call returns. When no provider is
  configured it queries none, logs a warning and returns the empty string, not an error.
\<close>

theorem run_research_first_configured:
  "queried (fst (run_research c env q)) =
     (case find (configured env) precedence of None \<Rightarrow> [] | Some p \<Rightarrow> [p]) \<and>
   (find (configured env) precedence = None \<longrightarrow>
      snd (run_research c env q) = Inr '''' \<and>
      LogWarning (''No research provider found when processing question URL '' @ page_url q @
                  ''. Will pass back empty string.'') \<in> set (fst (run_research c env q))) \<and>
   (\<forall>p. find (configured env) precedence = Some p \<longrightarrow>
      Query p (question_text q) \<in> set (fst (run_research c env q)) \<and>
      snd (run_research c env q) = provider_call c (question_text q) p)"
proof (intro conjI allI impI)
  show "queried (fst (run_research c env q)) =
      (case find (configured env) precedence of None \<Rightarrow> [] | Some p \<Rightarrow> [p])"
    by (rule queried_run_research)
next
  assume "find (configured env) precedence = None"
  then show "snd (run_research c env q) = Inr ''''"
    by (simp add: snd_run_research)
next
  assume "find (configured env) precedence = None"
  then show "LogWarning (''No research provider found when processing question URL '' @ page_url q @
      ''. Will pass back empty string.'') \<in> set (fst (run_research c env q))"
    by (simp add: run_research_cases)
next
  fix p assume "find (configured env) precedence = Some p"
  then show "Query p (question_text q) \<in> set (fst (run_research c env q))"
    by (rule query_run_research)
next
  fix p assume "find (configured env) precedence = Some p"
  then show "snd (run_research c env q) = provider_call c (question_text q) p"
    by (simp add: snd_run_research)
qed

lemma find_empty_env: "find (configured (env_of [])) precedence = None"
  by (simp add: configured_def precedence_def getenv_true_def env_of_def)

lemma find_exa_env:
  "find (configured (env_of [(''ASKNEWS_SECRET'', ''s''), (''EXA_API_KEY'', ''k''),
                             (''PERPLEXITY_API_KEY'', ''p'')])) precedence = Some ExaSmartSearcher"
  by (simp add: configured_def precedence_def getenv_true_def env_of_def)

lemma find_perplexity_env:
  "find (configured (env_of [(''PERPLEXITY_API_KEY'', ''p''), (''OPENROUTER_API_KEY'', ''o'')]))
     precedence = Some Perplexity"
  by (simp add: configured_def precedence_def getenv_true_def env_of_def)

lemma demo_exa_call:
  "provider_call demo_services (question_text demo_question) ExaSmartSearcher =
     Inl (Raised ''exa is down'')"
  by (simp add: demo_services_def call_exa_smart_searcher_def)

lemma demo_perplexity_call:
  "provider_call demo_services (question_text demo_question) Perplexity =
     Inr ''perplexity/sonar-pro''"
  by (simp add: demo_services_def call_perplexity_def)

theorem run_research_first_configured_witness:
  "find (configured (env_of [])) precedence = None \<and>
   queried (fst (run_research demo_services (env_of []) demo_question)) = [] \<and>
   snd (run_research demo_services (env_of []) demo_question) = Inr '''' \<and>
   queried (fst (run_research demo_services
      (env_of [(''ASKNEWS_SECRET'', ''s''), (''EXA_API_KEY'', ''k''), (''PERPLEXITY_API_KEY'', ''p'')])
      demo_question)) = [ExaSmartSearcher] \<and>
   snd (run_research demo_services
      (env_of [(''ASKNEWS_SECRET'', ''s''), (''EXA_API_KEY'', ''k''), (''PERPLEXITY_API_KEY'', ''p'')])
      demo_question) = Inl (Raised ''exa is down'') \<and>
   find (configured (env_of [(''PERPLEXITY_API_KEY'', ''p''), (''OPENROUTER_API_KEY'', ''o'')]))
     precedence = Some Perplexity \<and>
   queried (fst (run_research demo_services
      (env_of [(''PERPLEXITY_API_KEY'', ''p''), (''OPENROUTER_API_KEY'', ''o'')])
      demo_question)) = [Perplexity] \<and>
   Query Perplexity (question_text demo_question) \<in> set (fst (run_research demo_services
      (env_of [(''PERPLEXITY_API_KEY'', ''p''), (''OPENROUTER_API_KEY'', ''o'')])
      demo_question)) \<and>
   snd (run_research demo_services
      (env_of [(''PERPLEXITY_API_KEY'', ''p''), (''OPENROUTER_API_KEY'', ''o'')])
      demo_question) = Inr ''perplexity/sonar-pro''"
proof -
  note none = run_research_first_configured [of demo_services "env_of []" demo_question]
  note exa = run_research_first_configured [of demo_services
      "env_of [(''ASKNEWS_SECRET'', ''s''), (''EXA_API_KEY'', ''k''), (''PERPLEXITY_API_KEY'', ''p'')]"
      demo_question]
  note pplx = run_research_first_configured [of demo_services
      "env_of [(''PERPLEXITY_API_KEY'', ''p''), (''OPENROUTER_API_KEY'', ''o'')]"
      demo_question]
  have a: "queried (fst (run_research demo_services (env_of []) demo_question)) = []"
    using none [THEN conjunct1] by (simp only: find_empty_env option.case)
  have b: "snd (run_research demo_services (env_of []) demo_question) = Inr ''''"
    using none [THEN conjunct2, THEN conjunct1, THEN mp, OF find_empty_env] by (rule conjunct1)
  have c: "queried (fst (run_research demo_services
      (env_of [(''ASKNEWS_SECRET'', ''s''), (''EXA_API_KEY'', ''k''), (''PERPLEXITY_API_KEY'', ''p'')])
      demo_question)) = [ExaSmartSearcher]"
    using exa [THEN conjunct1] by (simp only: find_exa_env option.case)
  have d: "snd (run_research demo_services
      (env_of [(''ASKNEWS_SECRET'', ''s''), (''EXA_API_KEY'', ''k''), (''PERPLEXITY_API_KEY'', ''p'')])
      demo_question) = Inl (Raised ''exa is down'')"
    using exa [THEN conjunct2, THEN conjunct2, THEN spec, THEN mp, OF find_exa_env, THEN conjunct2]
    by (simp only: demo_exa_call)
  have e: "queried (fst (run_research demo_services
      (env_of [(''PERPLEXITY_API_KEY'', ''p''), (''OPENROUTER_API_KEY'', ''o'')])
      demo_question)) = [Perplexity]"
    using pplx [THEN conjunct1] by (simp only: find_perplexity_env option.case)
  have f: "Query Perplexity (question_text demo_question) \<in> set (fst (run_research demo_services
      (env_of [(''PERPLEXITY_API_KEY'', ''p''), (''OPENROUTER_API_KEY'', ''o'')])
      demo_question))"
    using pplx [THEN conjunct2, THEN conjunct2, THEN spec, THEN mp, OF find_perplexity_env]
    by (rule conjunct1)
  have g: "snd (run_research demo_services
      (env_of [(''PERPLEXITY_API_KEY'', ''p''), (''OPENROUTER_API_KEY'', ''o'')])
      demo_question) = Inr ''perplexity/sonar-pro''"
    using pplx [THEN conjunct2, THEN conjunct2, THEN spec, THEN mp, OF find_perplexity_env, THEN conjunct2]
    by (simp only: demo_perplexity_call)
  from find_empty_env a b c d find_perplexity_env e f g show ?thesis by (intro conjI)
qed

text \<open>
  C3. When the provider selected by the precedence is configured and its call raises,
  \<^verbatim>\<open>run_research\<close> raises the same exception: no other provider is queried after the
  failure and no text, empty or not, is returned in its place.
\<close>

theorem run_research_propagates_failure:
  assumes "find (configured env) precedence = Some p"
    and "provider_call c (question_text q) p = Inl e"
  shows "snd (run_research c env q) = Inl e \<and>
         queried (fst (run_research c env q)) = [p] \<and>
         (\<forall>t. snd (run_research c env q) \<noteq> Inr t)"
  using assms by (simp add: run_research_cases)

theorem run_research_propagates_failure_witness:
  "find (configured (env_of [(''ASKNEWS_SECRET'', ''s''), (''EXA_API_KEY'', ''k''),
                             (''PERPLEXITY_API_KEY'', ''p'')])) precedence = Some ExaSmartSearcher \<and>
   provider_call demo_services (question_text demo_question) ExaSmartSearcher =
     Inl (Raised ''exa is down'') \<and>
   snd (run_research demo_services
      (env_of [(''ASKNEWS_SECRET'', ''s''), (''EXA_API_KEY'', ''k''), (''PERPLEXITY_API_KEY'', ''p'')])
      demo_question) = Inl (Raised ''exa is down'') \<and>
   queried (fst (run_research demo_services
      (env_of [(''ASKNEWS_SECRET'', ''s''), (''EXA_API_KEY'', ''k''), (''PERPLEXITY_API_KEY'', ''p'')])
      demo_question)) = [ExaSmartSearcher]"
proof -
  have call: "provider_call demo_services (question_text demo_question) ExaSmartSearcher =
      Inl (Raised ''exa is down'')"
    by (simp add: demo_services_def call_exa_smart_searcher_def)
  show ?thesis
    using run_research_propagates_failure [OF find_exa_env call] find_exa_env call by simp
qed

lemma getenv_true_unset:
  "getenv_true (env(k := None)) k' = (k' \<noteq> k \<and> getenv_true env k')"
  by (simp add: getenv_true_def)

text \<open>The providers that follow AskNews in the precedence.\<close>

lemma find_without_asknews:
  "\<not> (getenv_true env ''ASKNEWS_CLIENT_ID'' \<and> getenv_true env ''ASKNEWS_SECRET'') \<Longrightarrow>
   find (configured env) precedence =
     find (configured env) [ExaSmartSearcher, Perplexity, PerplexityOpenRouter]"
  by (simp add: precedence_def configured_def)

lemma run_research_without_asknews:
  assumes "\<not> (getenv_true env ''ASKNEWS_CLIENT_ID'' \<and> getenv_true env ''ASKNEWS_SECRET'')"
  shows "AskNews \<notin> set (queried (fst (run_research c env q)))"
    and "run_research c env q =
           run_research c (env(''ASKNEWS_CLIENT_ID'' := None, ''ASKNEWS_SECRET'' := None)) q"
    and "queried (fst (run_research c env q)) =
           (case find (configured env) [ExaSmartSearcher, Perplexity, PerplexityOpenRouter] of
              None \<Rightarrow> [] | Some p \<Rightarrow> [p])"
    and "snd (run_research c env q) =
           (case find (configured env) [ExaSmartSearcher, Perplexity, PerplexityOpenRouter] of
              None \<Rightarrow> Inr '''' | Some p \<Rightarrow> provider_call c (question_text q) p)"
proof -
  note f = find_without_asknews [OF assms]
  have "find (configured env) precedence \<noteq> Some AskNews"
    using assms by (simp add: precedence_def configured_def)
  then show "AskNews \<notin> set (queried (fst (run_research c env q)))"
    by (auto simp: queried_run_research precedence_def split: option.splits if_splits)
  have "find (configured (env(''ASKNEWS_CLIENT_ID'' := None, ''ASKNEWS_SECRET'' := None))) precedence =
      find (configured env) precedence"
    using assms by (simp add: precedence_def configured_def getenv_true_unset)
  then show "run_research c env q =
      run_research c (env(''ASKNEWS_CLIENT_ID'' := None, ''ASKNEWS_SECRET'' := None)) q"
    by (simp only: run_research_cases)
  show "queried (fst (run_research c env q)) =
      (case find (configured env) [ExaSmartSearcher, Perplexity, PerplexityOpenRouter] of
         None \<Rightarrow> [] | Some p \<Rightarrow> [p])"
    by (simp only: queried_run_research f)
  show "snd (run_research c env q) =
      (case find (configured env) [ExaSmartSearcher, Perplexity, PerplexityOpenRouter] of
         None \<Rightarrow> Inr '''' | Some p \<Rightarrow> provider_call c (question_text q) p)"
    by (simp only: snd_run_research f)
qed

text \<open>
  C9. \<^verbatim>\<open>run_research\<close> queries AskNews only when \<^verbatim>\<open>ASKNEWS_CLIENT_ID\<close> and
  \<^verbatim>\<open>ASKNEWS_SECRET\<close> are both set (exactly when both have a non-empty value). When
  exactly one of the two is set, and whenever one of them is unset or empty, AskNews is
  not queried and dispatch falls through: the provider queried is the first configured
  one of Exa smart searcher, Perplexity, Perplexity through OpenRouter, the result is
  what its call returns (the empty string when none is configured), and the run is the
  run of the same environment with neither of the two variables set.
\<close>

theorem run_research_asknews_needs_both:
  "(AskNews \<in> set (queried (fst (run_research c env q))) \<longrightarrow>
      env ''ASKNEWS_CLIENT_ID'' \<noteq> None \<and> env ''ASKNEWS_SECRET'' \<noteq> None) \<and>
   (AskNews \<in> set (queried (fst (run_research c env q))) \<longleftrightarrow>
      getenv_true env ''ASKNEWS_CLIENT_ID'' \<and> getenv_true env ''ASKNEWS_SECRET'') \<and>
   ((env ''ASKNEWS_CLIENT_ID'' = None) \<noteq> (env ''ASKNEWS_SECRET'' = None) \<or>
    \<not> (getenv_true env ''ASKNEWS_CLIENT_ID'' \<and> getenv_true env ''ASKNEWS_SECRET'') \<longrightarrow>
      AskNews \<notin> set (queried (fst (run_research c env q))) \<and>
      run_research c env q =
        run_research c (env(''ASKNEWS_CLIENT_ID'' := None, ''ASKNEWS_SECRET'' := None)) q \<and>
      queried (fst (run_research c env q)) =
        (case find (configured env) [ExaSmartSearcher, Perplexity, PerplexityOpenRouter] of
           None \<Rightarrow> [] | Some p \<Rightarrow> [p]) \<and>
      snd (run_research c env q) =
        (case find (configured env) [ExaSmartSearcher, Perplexity, PerplexityOpenRouter] of
           None \<Rightarrow> Inr '''' | Some p \<Rightarrow> provider_call c (question_text q) p))"
proof -
  have iff: "AskNews \<in> set (queried (fst (run_research c env q))) \<longleftrightarrow>
      getenv_true env ''ASKNEWS_CLIENT_ID'' \<and> getenv_true env ''ASKNEWS_SECRET''"
  proof
    assume "AskNews \<in> set (queried (fst (run_research c env q)))"
    then show "getenv_true env ''ASKNEWS_CLIENT_ID'' \<and> getenv_true env ''ASKNEWS_SECRET''"
      using run_research_without_asknews(1) [of env c q] by blast
  next
    assume "getenv_true env ''ASKNEWS_CLIENT_ID'' \<and> getenv_true env ''ASKNEWS_SECRET''"
    then have "find (configured env) precedence = Some AskNews"
      by (simp add: precedence_def configured_def)
    then show "AskNews \<in> set (queried (fst (run_research c env q)))"
      by (simp add: queried_run_research)
  qed
  have set: "env ''ASKNEWS_CLIENT_ID'' \<noteq> None \<and> env ''ASKNEWS_SECRET'' \<noteq> None"
    if "getenv_true env ''ASKNEWS_CLIENT_ID'' \<and> getenv_true env ''ASKNEWS_SECRET''"
    using that by (auto simp: getenv_true_def split: option.splits)
  have no: "\<not> (getenv_true env ''ASKNEWS_CLIENT_ID'' \<and> getenv_true env ''ASKNEWS_SECRET'')"
    if "(env ''ASKNEWS_CLIENT_ID'' = None) \<noteq> (env ''ASKNEWS_SECRET'' = None) \<or>
        \<not> (getenv_true env ''ASKNEWS_CLIENT_ID'' \<and> getenv_true env ''ASKNEWS_SECRET'')"
    using that set by blast
  show ?thesis
  proof (intro conjI impI)
    assume "AskNews \<in> set (queried (fst (run_research c env q)))"
    with iff set show "env ''ASKNEWS_CLIENT_ID'' \<noteq> None" and "env ''ASKNEWS_SECRET'' \<noteq> None"
      by blast+
  next
    show "AskNews \<in> set (queried (fst (run_research c env q))) \<longleftrightarrow>
        getenv_true env ''ASKNEWS_CLIENT_ID'' \<and> getenv_true env ''ASKNEWS_SECRET''"
      by (rule iff)
  next
    assume h: "(env ''ASKNEWS_CLIENT_ID'' = None) \<noteq> (env ''ASKNEWS_SECRET'' = None) \<or>
        \<not> (getenv_true env ''ASKNEWS_CLIENT_ID'' \<and> getenv_true env ''ASKNEWS_SECRET'')"
    note r = run_research_without_asknews [OF no [OF h], of c q]
    show "AskNews \<notin> set (queried (fst (run_research c env q)))" by (rule r(1))
    show "run_research c env q =
        run_research c (env(''ASKNEWS_CLIENT_ID'' := None, ''ASKNEWS_SECRET'' := None)) q"
      by (rule r(2))
    show "queried (fst (run_research c env q)) =
        (case find (configured env) [ExaSmartSearcher, Perplexity, PerplexityOpenRouter] of
           None \<Rightarrow> [] | Some p \<Rightarrow> [p])"
      by (rule r(3))
    show "snd (run_research c env q) =
        (case find (configured env) [ExaSmartSearcher, Perplexity, PerplexityOpenRouter] of
           None \<Rightarrow> Inr '''' | Some p \<Rightarrow> provider_call c (question_text q) p)"
      by (rule r(4))
  qed
qed

lemma find_rest_exa_env:
  "find (configured (env_of [(''ASKNEWS_SECRET'', ''s''), (''EXA_API_KEY'', ''k''),
                             (''PERPLEXITY_API_KEY'', ''p'')]))
     [ExaSmartSearcher, Perplexity, PerplexityOpenRouter] = Some ExaSmartSearcher"
  by (simp add: configured_def getenv_true_def env_of_def)

lemma find_rest_empty_secret_env:
  "find (configured (env_of [(''ASKNEWS_CLIENT_ID'', ''i''), (''ASKNEWS_SECRET'', ''''),
                             (''PERPLEXITY_API_KEY'', ''p'')]))
     [ExaSmartSearcher, Perplexity, PerplexityOpenRouter] = Some Perplexity"
  by (simp add: configured_def getenv_true_def env_of_def)

theorem run_research_asknews_needs_both_witness:
  "queried (fst (run_research demo_services
      (env_of [(''ASKNEWS_CLIENT_ID'', ''i''), (''ASKNEWS_SECRET'', ''s''), (''EXA_API_KEY'', ''k'')])
      demo_question)) = [AskNews] \<and>
   (env_of [(''ASKNEWS_SECRET'', ''s''), (''EXA_API_KEY'', ''k''), (''PERPLEXITY_API_KEY'', ''p'')]
      ''ASKNEWS_CLIENT_ID'' = None) \<noteq>
   (env_of [(''ASKNEWS_SECRET'', ''s''), (''EXA_API_KEY'', ''k''), (''PERPLEXITY_API_KEY'', ''p'')]
      ''ASKNEWS_SECRET'' = None) \<and>
   AskNews \<notin> set (queried (fst (run_research demo_services
      (env_of [(''ASKNEWS_SECRET'', ''s''), (''EXA_API_KEY'', ''k''), (''PERPLEXITY_API_KEY'', ''p'')])
      demo_question))) \<and>
   queried (fst (run_research demo_services
      (env_of [(''ASKNEWS_SECRET'', ''s''), (''EXA_API_KEY'', ''k''), (''PERPLEXITY_API_KEY'', ''p'')])
      demo_question)) = [ExaSmartSearcher] \<and>
   snd (run_research demo_services
      (env_of [(''ASKNEWS_SECRET'', ''s''), (''EXA_API_KEY'', ''k''), (''PERPLEXITY_API_KEY'', ''p'')])
      demo_question) = Inl (Raised ''exa is down'') \<and>
   \<not> (getenv_true
        (env_of [(''ASKNEWS_CLIENT_ID'', ''i''), (''ASKNEWS_SECRET'', ''''), (''PERPLEXITY_API_KEY'', ''p'')])
        ''ASKNEWS_CLIENT_ID'' \<and>
      getenv_true
        (env_of [(''ASKNEWS_CLIENT_ID'', ''i''), (''ASKNEWS_SECRET'', ''''), (''PERPLEXITY_API_KEY'', ''p'')])
        ''ASKNEWS_SECRET'') \<and>
   queried (fst (run_research demo_services
      (env_of [(''ASKNEWS_CLIENT_ID'', ''i''), (''ASKNEWS_SECRET'', ''''), (''PERPLEXITY_API_KEY'', ''p'')])
      demo_question)) = [Perplexity] \<and>
   snd (run_research demo_services
      (env_of [(''ASKNEWS_CLIENT_ID'', ''i''), (''ASKNEWS_SECRET'', ''''), (''PERPLEXITY_API_KEY'', ''p'')])
      demo_question) = Inr ''perplexity/sonar-pro''"
proof -
  have both: "getenv_true
        (env_of [(''ASKNEWS_CLIENT_ID'', ''i''), (''ASKNEWS_SECRET'', ''s''), (''EXA_API_KEY'', ''k'')])
        ''ASKNEWS_CLIENT_ID'' \<and>
      getenv_true
        (env_of [(''ASKNEWS_CLIENT_ID'', ''i''), (''ASKNEWS_SECRET'', ''s''), (''EXA_API_KEY'', ''k'')])
        ''ASKNEWS_SECRET''"
    by (simp add: getenv_true_def env_of_def)
  have asknews: "queried (fst (run_research demo_services
      (env_of [(''ASKNEWS_CLIENT_ID'', ''i''), (''ASKNEWS_SECRET'', ''s''), (''EXA_API_KEY'', ''k'')])
      demo_question)) = [AskNews]"
    by (simp add: queried_run_research configured_def precedence_def getenv_true_def env_of_def)
  have one: "(env_of [(''ASKNEWS_SECRET'', ''s''), (''EXA_API_KEY'', ''k''), (''PERPLEXITY_API_KEY'', ''p'')]
      ''ASKNEWS_CLIENT_ID'' = None) \<noteq>
   (env_of [(''ASKNEWS_SECRET'', ''s''), (''EXA_API_KEY'', ''k''), (''PERPLEXITY_API_KEY'', ''p'')]
      ''ASKNEWS_SECRET'' = None)"
    by (simp add: env_of_def)
  have empty: "\<not> (getenv_true
        (env_of [(''ASKNEWS_CLIENT_ID'', ''i''), (''ASKNEWS_SECRET'', ''''), (''PERPLEXITY_API_KEY'', ''p'')])
        ''ASKNEWS_CLIENT_ID'' \<and>
      getenv_true
        (env_of [(''ASKNEWS_CLIENT_ID'', ''i''), (''ASKNEWS_SECRET'', ''''), (''PERPLEXITY_API_KEY'', ''p'')])
        ''ASKNEWS_SECRET'')"
    by (simp add: getenv_true_def env_of_def)
  note t1 = run_research_asknews_needs_both [of demo_services
      "env_of [(''ASKNEWS_SECRET'', ''s''), (''EXA_API_KEY'', ''k''), (''PERPLEXITY_API_KEY'', ''p'')]"
      demo_question, THEN conjunct2, THEN conjunct2, rule_format, OF disjI1, OF one]
  note t2 = run_research_asknews_needs_both [of demo_services
      "env_of [(''ASKNEWS_CLIENT_ID'', ''i''), (''ASKNEWS_SECRET'', ''''), (''PERPLEXITY_API_KEY'', ''p'')]"
      demo_question, THEN conjunct2, THEN conjunct2, rule_format, OF disjI2, OF empty]
  have a: "AskNews \<notin> set (queried (fst (run_research demo_services
      (env_of [(''ASKNEWS_SECRET'', ''s''), (''EXA_API_KEY'', ''k''), (''PERPLEXITY_API_KEY'', ''p'')])
      demo_question)))"
    using t1 by (rule conjunct1)
  have b: "queried (fst (run_research demo_services
      (env_of [(''ASKNEWS_SECRET'', ''s''), (''EXA_API_KEY'', ''k''), (''PERPLEXITY_API_KEY'', ''p'')])
      demo_question)) = [ExaSmartSearcher]"
    using t1 [THEN conjunct2, THEN conjunct2, THEN conjunct1]
    by (simp only: find_rest_exa_env option.case)
  have c: "snd (run_research demo_services
      (env_of [(''ASKNEWS_SECRET'', ''s''), (''EXA_API_KEY'', ''k''), (''PERPLEXITY_API_KEY'', ''p'')])
      demo_question) = Inl (Raised ''exa is down'')"
    using t1 [THEN conjunct2, THEN conjunct2, THEN conjunct2]
    by (simp only: find_rest_exa_env option.case demo_exa_call)
  have d: "queried (fst (run_research demo_services
      (env_of [(''ASKNEWS_CLIENT_ID'', ''i''), (''ASKNEWS_SECRET'', ''''), (''PERPLEXITY_API_KEY'', ''p'')])
      demo_question)) = [Perplexity]"
    using t2 [THEN conjunct2, THEN conjunct2, THEN conjunct1]
    by (simp only: find_rest_empty_secret_env option.case)
  have e: "snd (run_research demo_services
      (env_of [(''ASKNEWS_CLIENT_ID'', ''i''), (''ASKNEWS_SECRET'', ''''), (''PERPLEXITY_API_KEY'', ''p'')])
      demo_question) = Inr ''perplexity/sonar-pro''"
    using t2 [THEN conjunct2, THEN conjunct2, THEN conjunct2]
    by (simp only: find_rest_empty_secret_env option.case demo_perplexity_call)
  from asknews one a b c empty d e show ?thesis by (intro conjI)
qed

section \<open>Properties of the bound messages\<close>

text \<open>
  C10. \<^verbatim>\<open>_create_upper_and_lower_bound_messages\<close> returns the empty string for a bound
  whose open flag is set and the sentence "The outcome can not be higher than
  (upper bound)." (for the lower bound: "The outcome can not be lower than (lower
  bound).") for a closed bound; so the two bound lines of the numeric prompt state a
  bound exactly when that bound is closed.
\<close>

theorem bound_messages_iff_closed:
  "fst (create_upper_and_lower_bound_messages fmt q) =
     (if open_upper_bound q then ''''
      else ''The outcome can not be higher than '' @ fmt (upper_bound q) @ ''.'') \<and>
   snd (create_upper_and_lower_bound_messages fmt q) =
     (if open_lower_bound q then ''''
      else ''The outcome can not be lower than '' @ fmt (lower_bound q) @ ''.'') \<and>
   numeric_prompt_bound_lines fmt q =
     [snd (create_upper_and_lower_bound_messages fmt q),
      fst (create_upper_and_lower_bound_messages fmt q)] \<and>
   (fst (create_upper_and_lower_bound_messages fmt q) \<noteq> '''' \<longleftrightarrow> \<not> open_upper_bound q) \<and>
   (snd (create_upper_and_lower_bound_messages fmt q) \<noteq> '''' \<longleftrightarrow> \<not> open_lower_bound q)"
  by (simp add: create_upper_and_lower_bound_messages_def numeric_prompt_bound_lines_def)

theorem bound_messages_iff_closed_witness:
  "numeric_prompt_bound_lines (\<lambda>x. ''100.0'')
     \<lparr>open_upper_bound = False, open_lower_bound = True, upper_bound = 100, lower_bound = 0,
      unit_of_measure = None\<rparr> =
   ['''', ''The outcome can not be higher than 100.0.'']"
  using bound_messages_iff_closed [of "\<lambda>x. ''100.0''"
    "\<lparr>open_upper_bound = False, open_lower_bound = True, upper_bound = 100, lower_bound = 0,
      unit_of_measure = None\<rparr>"]
  by simp

section \<open>Properties of the percentage extractor\<close>

lemma scan_percentages_no_percent:
  "CHR ''%'' \<notin> set post \<Longrightarrow> scan_percentages ds post = []"
  by (induction post arbitrary: ds) auto

lemma scan_percentages_append:
  "pre \<noteq> [] \<Longrightarrow> \<not> is_digit (last pre) \<Longrightarrow>
   scan_percentages ds (pre @ rest) = scan_percentages ds pre @ scan_percentages [] rest"
proof (induction pre arbitrary: ds)
  case Nil
  then show ?case by simp
next
  case (Cons c pre)
  show ?case
  proof (cases "pre = []")
    case True
    with Cons.prems show ?thesis by simp
  next
    case False
    with Cons.prems have "\<not> is_digit (last pre)" by simp
    with False Cons.IH show ?thesis by simp
  qed
qed

lemma scan_percentages_digits:
  "list_all is_digit ds' \<Longrightarrow> ds @ ds' \<noteq> [] \<Longrightarrow>
   scan_percentages ds (ds' @ CHR ''%'' # post) = nat_of_digits (ds @ ds') # scan_percentages [] post"
proof (induction ds' arbitrary: ds)
  case Nil
  then show ?case by (simp add: is_digit_def)
next
  case (Cons d ds')
  from Cons.prems have "is_digit d" and "list_all is_digit ds'" by simp_all
  with Cons.IH [of "ds @ [d]"] show ?case by simp
qed

lemma percentage_matches_last:
  assumes "pre = [] \<or> \<not> is_digit (last pre)"
    and "ds \<noteq> []" and "list_all is_digit ds" and "CHR ''%'' \<notin> set post"
  shows "percentage_matches (pre @ ds @ CHR ''%'' # post) = percentage_matches pre @ [nat_of_digits ds]"
proof -
  have tail: "scan_percentages [] (ds @ CHR ''%'' # post) = [nat_of_digits ds]"
    using assms(2-4) scan_percentages_digits [of ds "[]" post]
    by (simp add: scan_percentages_no_percent)
  show ?thesis
  proof (cases "pre = []")
    case True
    with tail show ?thesis by (simp add: percentage_matches_def)
  next
    case False
    with assms(1) have "\<not> is_digit (last pre)" by simp
    with False tail show ?thesis
      by (simp add: percentage_matches_def scan_percentages_append)
  qed
qed

lemma extract_last_percentage_value_last:
  assumes "pre = [] \<or> \<not> is_digit (last pre)"
    and "ds \<noteq> []" and "list_all is_digit ds" and "CHR ''%'' \<notin> set post"
  shows "extract_last_percentage_value (pre @ ds @ CHR ''%'' # post) hi lo =
         Inr (min hi (max lo (of_nat (nat_of_digits ds) / 100)))"
proof -
  have m: "percentage_matches (pre @ ds @ CHR ''%'' # post) = percentage_matches pre @ [nat_of_digits ds]"
    using assms by (rule percentage_matches_last)
  show ?thesis
    unfolding extract_last_percentage_value_def m
    by (cases "percentage_matches pre") simp_all
qed

lemma extract_last_percentage_value_range:
  "lo \<le> hi \<Longrightarrow> extract_last_percentage_value text hi lo = Inr p \<Longrightarrow> lo \<le> p \<and> p \<le> hi"
  by (auto simp: extract_last_percentage_value_def split: list.splits)

lemma run_forecast_on_binary_Inr:
  "llm prompt = Inr text \<Longrightarrow>
   run_forecast_on_binary llm prompt =
     (case extract_last_percentage_value text 1 0 of
        Inl e \<Rightarrow> Inl e
      | Inr p \<Rightarrow> Inr \<lparr>prediction_value = p, reasoning = text\<rparr>)"
  by (simp add: run_forecast_on_binary_def)

text \<open>
  C1, as amended. Every binary forecast value lies in the closed interval from 0 to 1,
  the range the caller passes; a text ending in the line "Probability: 0%" is not
  rejected and gives exactly 0, a text ending in "Probability: 100%" gives exactly 1.
\<close>

theorem binary_forecast_closed_unit_interval:
  "(run_forecast_on_binary llm prompt = Inr rp \<longrightarrow>
      0 \<le> prediction_value rp \<and> prediction_value rp \<le> 1) \<and>
   (llm prompt = Inr (pre @ ''Probability: 0%'') \<longrightarrow>
      run_forecast_on_binary llm prompt =
        Inr \<lparr>prediction_value = 0, reasoning = pre @ ''Probability: 0%''\<rparr>) \<and>
   (llm prompt = Inr (pre @ ''Probability: 100%'') \<longrightarrow>
      run_forecast_on_binary llm prompt =
        Inr \<lparr>prediction_value = 1, reasoning = pre @ ''Probability: 100%''\<rparr>)"
proof (intro conjI impI)
  assume r: "run_forecast_on_binary llm prompt = Inr rp"
  then obtain response where t: "llm prompt = Inr response"
    by (cases "llm prompt") (simp_all add: run_forecast_on_binary_def)
  with r obtain p where "extract_last_percentage_value response 1 0 = Inr p" and "prediction_value rp = p"
    by (cases "extract_last_percentage_value response 1 0") (auto simp: run_forecast_on_binary_Inr)
  then show "0 \<le> prediction_value rp" and "prediction_value rp \<le> 1"
    using extract_last_percentage_value_range [of 0 1 response p] by simp_all
next
  assume t: "llm prompt = Inr (pre @ ''Probability: 0%'')"
  have "extract_last_percentage_value ((pre @ ''Probability: '') @ ''0'' @ CHR ''%'' # []) 1 0 =
      Inr (min 1 (max 0 (of_nat (nat_of_digits ''0'') / 100)))"
    by (rule extract_last_percentage_value_last) (simp_all add: is_digit_def)
  then have "extract_last_percentage_value (pre @ ''Probability: 0%'') 1 0 = Inr 0"
    by (simp add: nat_of_digits_def digit_value_def)
  with t show "run_forecast_on_binary llm prompt =
      Inr \<lparr>prediction_value = 0, reasoning = pre @ ''Probability: 0%''\<rparr>"
    by (simp add: run_forecast_on_binary_Inr)
next
  assume t: "llm prompt = Inr (pre @ ''Probability: 100%'')"
  have "extract_last_percentage_value ((pre @ ''Probability: '') @ ''100'' @ CHR ''%'' # []) 1 0 =
      Inr (min 1 (max 0 (of_nat (nat_of_digits ''100'') / 100)))"
    by (rule extract_last_percentage_value_last) (simp_all add: is_digit_def)
  then have "extract_last_percentage_value (pre @ ''Probability: 100%'') 1 0 = Inr 1"
    by (simp add: nat_of_digits_def digit_value_def)
  with t show "run_forecast_on_binary llm prompt =
      Inr \<lparr>prediction_value = 1, reasoning = pre @ ''Probability: 100%''\<rparr>"
    by (simp add: run_forecast_on_binary_Inr)
qed

theorem binary_forecast_closed_unit_interval_witness:
  "run_forecast_on_binary (\<lambda>p. Inr (''I am sure.\<newline>'' @ ''Probability: 100%'')) ''prompt'' =
     Inr \<lparr>prediction_value = 1, reasoning = ''I am sure.\<newline>'' @ ''Probability: 100%''\<rparr> \<and>
   run_forecast_on_binary (\<lambda>p. Inr (''No way.\<newline>'' @ ''Probability: 0%'')) ''prompt'' =
     Inr \<lparr>prediction_value = 0, reasoning = ''No way.\<newline>'' @ ''Probability: 0%''\<rparr> \<and>
   (0::rat) \<le> prediction_value \<lparr>prediction_value = 1, reasoning = ''I am sure.\<newline>'' @ ''Probability: 100%''\<rparr>"
  using binary_forecast_closed_unit_interval [of "\<lambda>p. Inr (''I am sure.\<newline>'' @ ''Probability: 100%'')"
      "''prompt''" "\<lparr>prediction_value = 1, reasoning = ''I am sure.\<newline>'' @ ''Probability: 100%''\<rparr>"
      "''I am sure.\<newline>''"]
    binary_forecast_closed_unit_interval [of "\<lambda>p. Inr (''No way.\<newline>'' @ ''Probability: 0%'')"
      "''prompt''" "\<lparr>prediction_value = 0, reasoning = ''No way.\<newline>'' @ ''Probability: 0%''\<rparr>"
      "''No way.\<newline>''"]
  by simp

text \<open>
  The claim as stated fails: called as \<^verbatim>\<open>_run_forecast_on_binary\<close> calls it, with the
  bounds 1 and 0, the extractor returns exactly 0 for "Probability: 0%" and exactly 1 for
  "Probability: 100%".
\<close>

theorem binary_forecast_exactly_zero_or_one:
  "extract_last_percentage_value ''Probability: 0%'' 1 0 = Inr 0 \<and>
   extract_last_percentage_value ''Probability: 100%'' 1 0 = Inr 1"
  by code_simp




section \<open>Properties of the option-list extractor\<close>

lemma sum_list_divide_const:
  "sum_list (map (\<lambda>(opt, p). p / c) xs) = sum_list (map snd xs) / (c::rat)"
  by (induction xs) (auto simp: add_divide_distrib)

lemma renormalize_sum:
  assumes "renormalize xs = Inr ys"
  shows "sum_list (map snd ys) = 1"
proof -
  let ?total = "sum_list (map snd xs)"
  from assms have nz: "?total \<noteq> 0" and ys: "ys = map (\<lambda>(opt, p). (opt, p / ?total)) xs"
    by (auto simp: renormalize_def Let_def split: if_splits)
  have "map snd ys = map (\<lambda>(opt, p). p / ?total) xs"
    by (simp add: ys case_prod_unfold)
  then have "sum_list (map snd ys) = ?total / ?total"
    by (simp only: sum_list_divide_const)
  with nz show ?thesis by simp
qed

lemma renormalize_labels: "renormalize xs = Inr ys \<Longrightarrow> map fst ys = map fst xs"
  by (auto simp: renormalize_def Let_def case_prod_unfold split: if_splits)

lemma apply_floor_labels: "map fst (apply_floor eps xs) = map fst xs"
  by (simp add: apply_floor_def case_prod_unfold)

lemma rescale_matched_labels: "rescale_matched tol xs = Inr ys \<Longrightarrow> map fst ys = map fst xs"
  by (auto simp: rescale_matched_def Let_def case_prod_unfold split: if_splits)

lemma match_options_labels: "map fst (match_options mapping options) = options"
  by (simp add: match_options_def comp_def)

lemma extract_option_list_Inr:
  assumes "extract_option_list_with_percentage_afterwards pol response options = Inr pl"
  shows "\<exists>normalized.
           rescale_matched (tolerance pol) (match_options (option_mapping response) options) =
             Inr normalized \<and>
           renormalize (apply_floor (epsilon pol) normalized) = Inr (predicted_options pl)"
  using assms
  by (auto simp: extract_option_list_with_percentage_afterwards_def Let_def
           split: if_splits sum.splits)

lemma run_forecast_on_multiple_choice_Inr:
  assumes "run_forecast_on_multiple_choice pol llm prompt options = Inr rp"
  shows "\<exists>response. llm prompt = Inr response \<and>
           extract_option_list_with_percentage_afterwards pol response options =
             Inr (prediction_value rp)"
  using assms
  by (auto simp: run_forecast_on_multiple_choice_def split: sum.splits)

text \<open>
  C5. Whenever the multiple-choice forecast parses an option list out of the text of
  the model, the probabilities of the list, taken after the floor and the second
  normalization, sum to 1 (in exact arithmetic, so within any tolerance, 1e-6 too).
\<close>

theorem multiple_choice_sums_to_one:
  assumes "run_forecast_on_multiple_choice pol llm prompt options = Inr rp"
  shows "sum_list (map snd (predicted_options (prediction_value rp))) = 1 \<and>
         \<bar>sum_list (map snd (predicted_options (prediction_value rp))) - 1\<bar> \<le> 1 / 1000000"
proof -
  from run_forecast_on_multiple_choice_Inr [OF assms] obtain response
    where "extract_option_list_with_percentage_afterwards pol response options =
             Inr (prediction_value rp)"
    by blast
  from extract_option_list_Inr [OF this] obtain normalized
    where "renormalize (apply_floor (epsilon pol) normalized) =
             Inr (predicted_options (prediction_value rp))"
    by blast
  then have "sum_list (map snd (predicted_options (prediction_value rp))) = 1"
    by (rule renormalize_sum)
  then show ?thesis by simp
qed

lemma demo_floor_run:
  "run_forecast_on_multiple_choice demo_policy
     (\<lambda>p. Inr ''Final answer\<newline>Blue: 50%\<newline>Red: 30%\<newline>Green: 0%'') ''prompt''
     [''Red'', ''Green'', ''Blue''] =
   Inr \<lparr>prediction_value =
          \<lparr>predicted_options = [(''Red'', 375 / 1001), (''Green'', 1 / 1001), (''Blue'', 625 / 1001)],
           unmatched_warnings = []\<rparr>,
        reasoning = ''Final answer\<newline>Blue: 50%\<newline>Red: 30%\<newline>Green: 0%''\<rparr>"
  by code_simp

theorem multiple_choice_sums_to_one_witness:
  "run_forecast_on_multiple_choice demo_policy
     (\<lambda>p. Inr ''Final answer\<newline>Blue: 50%\<newline>Red: 30%\<newline>Green: 0%'') ''prompt''
     [''Red'', ''Green'', ''Blue''] =
   Inr \<lparr>prediction_value =
          \<lparr>predicted_options = [(''Red'', 375 / 1001), (''Green'', 1 / 1001), (''Blue'', 625 / 1001)],
           unmatched_warnings = []\<rparr>,
        reasoning = ''Final answer\<newline>Blue: 50%\<newline>Red: 30%\<newline>Green: 0%''\<rparr> \<and>
   sum_list (map snd [(''Red'', 375 / 1001), (''Green'', 1 / 1001), (''Blue'', 625 / 1001 :: rat)]) = 1"
  using multiple_choice_sums_to_one [OF demo_floor_run] demo_floor_run
  by simp

text \<open>
  C6. Whenever the multiple-choice forecast parses an option list, the list has one
  entry for each option of the question, labelled with the options of the question in
  their order, whatever the order of the lines in the text of the model.
\<close>

theorem multiple_choice_order_of_question:
  assumes "run_forecast_on_multiple_choice pol llm prompt options = Inr rp"
  shows "map fst (predicted_options (prediction_value rp)) = options \<and>
         length (predicted_options (prediction_value rp)) = length options"
proof -
  from run_forecast_on_multiple_choice_Inr [OF assms] obtain response
    where "extract_option_list_with_percentage_afterwards pol response options =
             Inr (prediction_value rp)"
    by blast
  from extract_option_list_Inr [OF this] obtain normalized
    where r: "rescale_matched (tolerance pol) (match_options (option_mapping response) options) =
             Inr normalized"
      and n: "renormalize (apply_floor (epsilon pol) normalized) =
             Inr (predicted_options (prediction_value rp))"
    by blast
  have "map fst (predicted_options (prediction_value rp)) = map fst normalized"
    using renormalize_labels [OF n] by (simp add: apply_floor_labels)
  also have "\<dots> = options"
    using rescale_matched_labels [OF r] by (simp add: match_options_labels)
  finally have labels: "map fst (predicted_options (prediction_value rp)) = options" .
  then have "length (predicted_options (prediction_value rp)) = length options"
    by (metis length_map)
  with labels show ?thesis by simp
qed

lemma demo_order_run:
  "run_forecast_on_multiple_choice demo_policy
     (\<lambda>p. Inr ''Blue: 50%\<newline>Red: 30%\<newline>Green: 20%'') ''prompt''
     [''Red'', ''Green'', ''Blue''] =
   Inr \<lparr>prediction_value =
          \<lparr>predicted_options = [(''Red'', 3 / 10), (''Green'', 1 / 5), (''Blue'', 1 / 2)],
           unmatched_warnings = []\<rparr>,
        reasoning = ''Blue: 50%\<newline>Red: 30%\<newline>Green: 20%''\<rparr>"
  by code_simp

theorem multiple_choice_order_of_question_witness:
  "run_forecast_on_multiple_choice demo_policy
     (\<lambda>p. Inr ''Blue: 50%\<newline>Red: 30%\<newline>Green: 20%'') ''prompt''
     [''Red'', ''Green'', ''Blue''] =
   Inr \<lparr>prediction_value =
          \<lparr>predicted_options = [(''Red'', 3 / 10), (''Green'', 1 / 5), (''Blue'', 1 / 2)],
           unmatched_warnings = []\<rparr>,
        reasoning = ''Blue: 50%\<newline>Red: 30%\<newline>Green: 20%''\<rparr> \<and>
   map fst [(''Red'', 3 / 10), (''Green'', 1 / 5), (''Blue'', 1 / 2 :: rat)] = [''Red'', ''Green'', ''Blue'']"
  using multiple_choice_order_of_question [OF demo_order_run] demo_order_run
  by simp

section \<open>Properties of the percentile extractor\<close>

lemma declare_percentile_keys:
  "fst ` set (declare_percentile p v xs) = insert p (fst ` set xs)"
proof (induction xs)
  case Nil
  then show ?case by simp
next
  case (Cons x xs)
  obtain p' v' where x: "x = (p', v')" by (cases x)
  show ?case
  proof (cases "p < p'")
    case True
    then show ?thesis by (simp add: x)
  next
    case False
    show ?thesis
    proof (cases "p = p'")
      case True
      then show ?thesis by (simp add: x)
    next
      case ne: False
      with False have "declare_percentile p v (x # xs) = (p', v') # declare_percentile p v xs"
        by (simp add: x)
      then show ?thesis
        by (simp add: x Cons.IH insert_commute)
    qed
  qed
qed

lemma declare_percentile_sorted:
  "sorted_wrt (<) (map fst xs) \<Longrightarrow> sorted_wrt (<) (map fst (declare_percentile p v xs))"
proof (induction xs)
  case Nil
  then show ?case by simp
next
  case (Cons x xs)
  obtain p' v' where x: "x = (p', v')" by (cases x)
  from Cons.prems have tl: "sorted_wrt (<) (map fst xs)" and hd: "\<forall>k \<in> fst ` set xs. p' < k"
    by (simp_all add: x)
  show ?case
  proof (cases "p < p'")
    case True
    with tl hd show ?thesis by (auto simp: x)
  next
    case False
    show ?thesis
    proof (cases "p = p'")
      case True
      with tl hd show ?thesis by (simp add: x)
    next
      case ne: False
      with False have "p' < p" by simp
      moreover have "sorted_wrt (<) (map fst (declare_percentile p v xs))"
        using tl by (rule Cons.IH)
      ultimately show ?thesis
        using hd False ne by (simp add: x declare_percentile_keys)
    qed
  qed
qed

lemma foldl_declare_percentile_keys:
  "fst ` set (foldl (\<lambda>m (p, v). declare_percentile p v m) acc entries) =
   fst ` set acc \<union> fst ` set entries"
proof (induction entries arbitrary: acc)
  case Nil
  then show ?case by simp
next
  case (Cons e entries)
  obtain p v where e: "e = (p, v)" by (cases e)
  have "fst ` set (foldl (\<lambda>m (p, v). declare_percentile p v m) acc (e # entries)) =
      fst ` set (declare_percentile p v acc) \<union> fst ` set entries"
    by (simp add: e Cons.IH)
  then show ?case
    by (simp add: declare_percentile_keys e)
qed

lemma foldl_declare_percentile_sorted:
  "sorted_wrt (<) (map fst acc) \<Longrightarrow>
   sorted_wrt (<) (map fst (foldl (\<lambda>m (p, v). declare_percentile p v m) acc entries))"
proof (induction entries arbitrary: acc)
  case Nil
  then show ?case by simp
next
  case (Cons e entries)
  obtain p v where e: "e = (p, v)" by (cases e)
  from Cons.prems have "sorted_wrt (<) (map fst (declare_percentile p v acc))"
    by (rule declare_percentile_sorted)
  then show ?case
    unfolding e foldl_Cons prod.case by (rule Cons.IH)
qed

lemma percentile_mapping_keys:
  "set (map fst (percentile_mapping entries)) = set (map fst entries)"
  by (simp add: percentile_mapping_def foldl_declare_percentile_keys)

lemma percentile_mapping_sorted: "sorted_wrt (<) (map fst (percentile_mapping entries))"
  by (simp add: percentile_mapping_def foldl_declare_percentile_sorted)

lemma enforce_monotonic_keys: "map fst (enforce_monotonic xs) = map fst xs"
  by (induction xs rule: enforce_monotonic.induct) simp_all

lemma enforce_monotonic_length: "length (enforce_monotonic xs) = length xs"
  by (induction xs rule: enforce_monotonic.induct) simp_all

lemma enforce_monotonic_head: "\<exists>ys. enforce_monotonic (x # xs) = x # ys"
proof (cases xs)
  case Nil
  then show ?thesis by simp
next
  case (Cons y ys)
  then show ?thesis by (cases x, cases y) simp
qed

lemma enforce_monotonic_sorted: "sorted (map snd (enforce_monotonic xs))"
proof (induction xs rule: enforce_monotonic.induct)
  case 1
  then show ?case by simp
next
  case (2 x)
  then show ?case by simp
next
  case (3 p v p' v' xs)
  let ?w = "if v' < v then v else v'"
  obtain ys where ys: "enforce_monotonic ((p', ?w) # xs) = (p', ?w) # ys"
    using enforce_monotonic_head by blast
  from "3.IH" have "sorted (?w # map snd ys)" by (simp add: ys)
  moreover have "v \<le> ?w" by simp
  ultimately have "sorted (v # ?w # map snd ys)" by (simp only: sorted2 simp_thms)
  then show ?case by (simp add: ys)
qed

lemma enforce_monotonic_step:
  "Suc i < length xs \<Longrightarrow>
   snd (enforce_monotonic xs ! Suc i) = max (snd (enforce_monotonic xs ! i)) (snd (xs ! Suc i))"
proof (induction xs arbitrary: i rule: enforce_monotonic.induct)
  case 1
  then show ?case by simp
next
  case (2 x)
  then show ?case by simp
next
  case (3 p v p' v' xs)
  let ?w = "if v' < v then v else v'"
  obtain ys where ys: "enforce_monotonic ((p', ?w) # xs) = (p', ?w) # ys"
    using enforce_monotonic_head by blast
  show ?case
  proof (cases i)
    case 0
    then show ?thesis by (simp add: ys max_def)
  next
    case (Suc j)
    with "3.prems" have "Suc j < length ((p', ?w) # xs)" by simp
    from "3.IH" [OF this]
    have "snd (enforce_monotonic ((p', ?w) # xs) ! Suc j) =
        max (snd (enforce_monotonic ((p', ?w) # xs) ! j)) (snd (((p', ?w) # xs) ! Suc j))" .
    then show ?thesis by (simp add: Suc)
  qed
qed

lemma clip_to_bounds_mono: "v \<le> w \<Longrightarrow> clip_to_bounds q v \<le> clip_to_bounds q w"
  by (auto simp: clip_to_bounds_def Let_def min_def max_def)

lemma sorted_map_clip: "sorted vs \<Longrightarrow> sorted (map (clip_to_bounds q) vs)"
  by (induction vs) (auto simp: clip_to_bounds_mono)

lemma run_forecast_on_numeric_Inr:
  assumes "run_forecast_on_numeric pol llm prompt q = Inr rp" and "llm prompt = Inr response"
  shows "declared_percentiles (prediction_value rp) =
           map (\<lambda>(p, v). (p, clip_to_bounds q v))
             (enforce_monotonic (percentile_mapping (scan_percentile_lines pol response)))"
  using assms
  by (auto simp: run_forecast_on_numeric_def extract_numeric_distribution_def Let_def
           split: if_splits)

text \<open>
  C7. Whenever the numeric forecast builds a distribution from the text of the model,
  the declared values are non-decreasing as the percentile increases. The repair
  discards no data point: the percentiles of the distribution are the percentiles found
  in the text, each once, in increasing order. In the repair each value is the greater
  of the value stated for its percentile and the repaired value before it; the result
  is then clipped to the closed bounds of the question.
\<close>

theorem numeric_percentiles_non_decreasing:
  assumes "run_forecast_on_numeric pol llm prompt q = Inr rp" and "llm prompt = Inr response"
  shows "sorted (map snd (declared_percentiles (prediction_value rp))) \<and>
         sorted_wrt (<) (map fst (declared_percentiles (prediction_value rp))) \<and>
         set (map fst (declared_percentiles (prediction_value rp))) =
           set (map fst (scan_percentile_lines pol response)) \<and>
         declared_percentiles (prediction_value rp) =
           map (\<lambda>(p, v). (p, clip_to_bounds q v))
             (enforce_monotonic (percentile_mapping (scan_percentile_lines pol response))) \<and>
         (\<forall>i. Suc i < length (percentile_mapping (scan_percentile_lines pol response)) \<longrightarrow>
            snd (enforce_monotonic (percentile_mapping (scan_percentile_lines pol response)) ! Suc i) =
            max (snd (enforce_monotonic (percentile_mapping (scan_percentile_lines pol response)) ! i))
                (snd (percentile_mapping (scan_percentile_lines pol response) ! Suc i)))"
proof -
  let ?m = "percentile_mapping (scan_percentile_lines pol response)"
  have d: "declared_percentiles (prediction_value rp) =
      map (\<lambda>(p, v). (p, clip_to_bounds q v)) (enforce_monotonic ?m)"
    using assms by (rule run_forecast_on_numeric_Inr)
  have vmap: "map snd (map (\<lambda>(p, v). (p, clip_to_bounds q v)) ys) = map (clip_to_bounds q) (map snd ys)"
    for ys :: "(nat \<times> rat) list"
    by (induction ys) auto
  have vals: "map snd (declared_percentiles (prediction_value rp)) =
      map (clip_to_bounds q) (map snd (enforce_monotonic ?m))"
    by (simp only: d vmap)
  have kmap: "map fst (map (\<lambda>(p, v). (p, clip_to_bounds q v)) ys) = map fst ys" for ys :: "(nat \<times> rat) list"
    by (induction ys) auto
  have keys: "map fst (declared_percentiles (prediction_value rp)) = map fst ?m"
    by (simp only: d kmap enforce_monotonic_keys)
  have "sorted (map snd (declared_percentiles (prediction_value rp)))"
    unfolding vals by (rule sorted_map_clip) (rule enforce_monotonic_sorted)
  moreover have "sorted_wrt (<) (map fst (declared_percentiles (prediction_value rp)))"
    unfolding keys by (rule percentile_mapping_sorted)
  moreover have "set (map fst (declared_percentiles (prediction_value rp))) =
      set (map fst (scan_percentile_lines pol response))"
    unfolding keys by (rule percentile_mapping_keys)
  ultimately show ?thesis
    using d enforce_monotonic_step [of _ ?m] by blast
qed

lemma demo_numeric_run:
  "run_forecast_on_numeric demo_percentile_policy
     (\<lambda>p. Inr ''Percentile 10: 5\<newline>Percentile 20: 3\<newline>Percentile 50: 10\<newline>Percentile 90: 8'')
     ''prompt'' demo_numeric_question =
   Inr \<lparr>prediction_value =
          \<lparr>declared_percentiles = [(10, 5), (20, 5), (50, 10), (90, 10)],
           distribution_question = demo_numeric_question\<rparr>,
        reasoning = ''Percentile 10: 5\<newline>Percentile 20: 3\<newline>Percentile 50: 10\<newline>Percentile 90: 8''\<rparr>"
  by code_simp

theorem numeric_percentiles_non_decreasing_witness:
  "run_forecast_on_numeric demo_percentile_policy
     (\<lambda>p. Inr ''Percentile 10: 5\<newline>Percentile 20: 3\<newline>Percentile 50: 10\<newline>Percentile 90: 8'')
     ''prompt'' demo_numeric_question =
   Inr \<lparr>prediction_value =
          \<lparr>declared_percentiles = [(10, 5), (20, 5), (50, 10), (90, 10)],
           distribution_question = demo_numeric_question\<rparr>,
        reasoning = ''Percentile 10: 5\<newline>Percentile 20: 3\<newline>Percentile 50: 10\<newline>Percentile 90: 8''\<rparr> \<and>
   sorted (map snd (declared_percentiles (prediction_value
     \<lparr>prediction_value =
          \<lparr>declared_percentiles = [(10, 5), (20, 5), (50, 10), (90, 10)],
           distribution_question = demo_numeric_question\<rparr>,
        reasoning = ''Percentile 10: 5\<newline>Percentile 20: 3\<newline>Percentile 50: 10\<newline>Percentile 90: 8''\<rparr>)))"
proof -
  have "sorted (map snd (declared_percentiles (prediction_value
     \<lparr>prediction_value =
          \<lparr>declared_percentiles = [(10, 5), (20, 5), (50, 10), (90, 10)],
           distribution_question = demo_numeric_question\<rparr>,
        reasoning = ''Percentile 10: 5\<newline>Percentile 20: 3\<newline>Percentile 50: 10\<newline>Percentile 90: 8''\<rparr>)))"
    using numeric_percentiles_non_decreasing [OF demo_numeric_run refl] by (rule conjunct1)
  with demo_numeric_run show ?thesis by (rule conjI)
qed

end
